theory Spec2Isabelle
  imports Complex_Main
begin

section \<open>JavaScript values\<close>

text \<open>
  The values that flow through \<^verbatim>\<open>server.js\<close>: fields of the provider's JSON payload,
  entries of the download counter and fields of the JSON the routes answer with.
  \<open>JUndefined\<close> is a missing property (JSON output omits it). \<open>JNum\<close> holds the
  integer-valued numbers; fractions and the rounding of doubles are outside the model.
  \<open>JObj t\<close> is any object, array or function; the model keeps only the text \<open>t\<close> that its
  conversion to a string yields, which is all the program can observe of one here.
\<close>

datatype jsval =
    JUndefined
  | JNull
  | JBool bool
  | JNum int
  | JNaN
  | JStr string
  | JObj string

text \<open>Truthiness, as \<^verbatim>\<open>||\<close> and \<^verbatim>\<open>!\<close> read it.\<close>

fun truthy :: "jsval \<Rightarrow> bool" where
  "truthy JUndefined = False"
| "truthy JNull = False"
| "truthy (JBool b) = b"
| "truthy (JNum n) = (n \<noteq> 0)"
| "truthy JNaN = False"
| "truthy (JStr s) = (s \<noteq> [])"
| "truthy (JObj t) = True"

text \<open>\<^verbatim>\<open>a || b\<close>: the left operand when it is truthy, else the right one.\<close>

definition js_or :: "jsval \<Rightarrow> jsval \<Rightarrow> jsval" where
  "js_or a b = (if truthy a then a else b)"

text \<open>Decimal text of an integer, as \<^verbatim>\<open>String(n)\<close> prints it.\<close>

fun digit_char :: "nat \<Rightarrow> char" where
  "digit_char n = char_of (48 + n)"

fun nat_text :: "nat \<Rightarrow> string" where
  "nat_text n = (if n < 10 then [digit_char n] else nat_text (n div 10) @ [digit_char (n mod 10)])"

definition int_text :: "int \<Rightarrow> string" where
  "int_text i = (if i < 0 then CHR ''-'' # nat_text (nat (- i)) else nat_text (nat i))"

text \<open>\<^verbatim>\<open>String(v)\<close>, for numbers below \<open>10 ^ 21\<close> in size, which print in plain decimal.\<close>

fun js_String :: "jsval \<Rightarrow> string" where
  "js_String JUndefined = ''undefined''"
| "js_String JNull = ''null''"
| "js_String (JBool b) = (if b then ''true'' else ''false'')"
| "js_String (JNum n) = int_text n"
| "js_String JNaN = ''NaN''"
| "js_String (JStr s) = s"
| "js_String (JObj t) = t"

text \<open>
  \<^verbatim>\<open>v + 1\<close>: numeric addition for numbers, booleans, null and undefined; an operand
  that is a string, or an object (whose primitive is its string conversion), makes
  \<^verbatim>\<open>+\<close> concatenate. The sum of a number is exact below \<open>2 ^ 53\<close> in size.
\<close>

fun js_plus_one :: "jsval \<Rightarrow> jsval" where
  "js_plus_one JUndefined = JNaN"
| "js_plus_one JNull = JNum 1"
| "js_plus_one (JBool b) = JNum (if b then 2 else 1)"
| "js_plus_one (JNum n) = JNum (n + 1)"
| "js_plus_one JNaN = JNaN"
| "js_plus_one (JStr s) = JStr (s @ ''1'')"
| "js_plus_one (JObj t) = JStr (t @ ''1'')"


section \<open>The download counter\<close>

text \<open>
  \<^verbatim>\<open>let downloadCounts = {};\<close> is a plain object used as a dictionary, the same in
  both versions of the server. Its own properties are a map from keys to values. A read
  of a key that is not an own property goes on to \<^verbatim>\<open>Object.prototype\<close>, whose
  members every plain object inherits: the methods below and the accessor
  \<^verbatim>\<open>__proto__\<close>, which reads as \<^verbatim>\<open>Object.prototype\<close> itself.
\<close>

type_synonym counts = "string \<rightharpoonup> jsval"

definition native_function :: "string \<Rightarrow> jsval" where
  "native_function name = JObj (''function '' @ name @ ''() { [native code] }'')"

definition prototype_methods :: "string list" where
  "prototype_methods =
     [''__defineGetter__'', ''__defineSetter__'', ''hasOwnProperty'', ''__lookupGetter__'',
      ''__lookupSetter__'', ''isPrototypeOf'', ''propertyIsEnumerable'', ''toString'',
      ''valueOf'', ''toLocaleString'']"

definition object_prototype :: "string \<Rightarrow> jsval option" where
  "object_prototype k =
     (if k = ''constructor'' then Some (native_function ''Object'')
      else if k = ''__proto__'' then Some (JObj ''[object Object]'')
      else if k \<in> set prototype_methods then Some (native_function k)
      else None)"

text \<open>\<^verbatim>\<open>downloadCounts[k]\<close>, read.\<close>

definition get_prop :: "counts \<Rightarrow> string \<Rightarrow> jsval" where
  "get_prop c k =
     (case c k of
        Some v \<Rightarrow> v
      | None \<Rightarrow> (case object_prototype k of Some v \<Rightarrow> v | None \<Rightarrow> JUndefined))"

text \<open>
  \<^verbatim>\<open>downloadCounts[k] = v\<close> for a number or a string \<open>v\<close>, which is all that
  \<open>js_plus_one\<close> produces. An own property is overwritten. Otherwise the inherited
  methods are writable data properties, so the assignment shadows them with a new own
  property; the inherited setter of \<^verbatim>\<open>__proto__\<close> ignores a value that is neither an
  object nor null, and nothing is stored.
\<close>

definition set_prop :: "counts \<Rightarrow> string \<Rightarrow> jsval \<Rightarrow> counts" where
  "set_prop c k v =
     (if c k = None \<and> k = ''__proto__'' then c else c(k \<mapsto> v))"

text \<open>
  The process state: the counter and the file \<^verbatim>\<open>downloads.json\<close> (\<open>None\<close> while it
  does not exist).
\<close>

record store =
  downloadCounts :: counts
  downloads_file :: "counts option"

text \<open>
  \<^verbatim>\<open>saveDownloadCounts()\<close> writes the counter to the file outside production; a
  failing write (\<open>writable = False\<close>) is swallowed.
\<close>

definition saveDownloadCounts :: "bool \<Rightarrow> bool \<Rightarrow> store \<Rightarrow> store" where
  "saveDownloadCounts production writable st =
     (if \<not> production \<and> writable then st\<lparr>downloads_file := Some (downloadCounts st)\<rparr>
      else st)"

text \<open>The body of the two counter routes: \<^verbatim>\<open>{ success, downloads }\<close>.\<close>

record downloads_body =
  d_success :: bool
  d_downloads :: jsval

text \<open>\<^verbatim>\<open>GET /api/downloads/:assetId\<close>.\<close>

definition get_downloads :: "store \<Rightarrow> string \<Rightarrow> downloads_body" where
  "get_downloads st assetId =
     \<lparr>d_success = True, d_downloads = js_or (get_prop (downloadCounts st) assetId) (JNum 0)\<rparr>"

text \<open>\<^verbatim>\<open>POST /api/downloads/:assetId\<close>: the new state and the answer.\<close>

definition post_downloads :: "bool \<Rightarrow> bool \<Rightarrow> store \<Rightarrow> string \<Rightarrow> store \<times> downloads_body" where
  "post_downloads production writable st assetId =
     (let c = downloadCounts st;
          c' = set_prop c assetId (js_plus_one (js_or (get_prop c assetId) (JNum 0)));
          st' = saveDownloadCounts production writable (st\<lparr>downloadCounts := c'\<rparr>)
      in (st', \<lparr>d_success = True, d_downloads = get_prop (downloadCounts st') assetId\<rparr>))"

text \<open>A process that has just started with no \<^verbatim>\<open>downloads.json\<close>.\<close>

definition fresh_store :: store where
  "fresh_store = \<lparr>downloadCounts = Map.empty, downloads_file = None\<rparr>"


section \<open>Requests to the provider\<close>

text \<open>
  A query parameter of Express is a text or missing; a parameter given more than once,
  which Express reads as an array, is outside the model. A text is a list of characters,
  each one code point below 256; texts with other code points are outside the model. A
  parameter forwarded to the provider is such a text or a number, and the numbers that
  \<^verbatim>\<open>Math.min(_, 100)\<close> can produce are the finite ones, NaN and minus infinity. \<open>PNum\<close>
  holds the finite numbers that are integers, \<open>PFrac\<close> the other finite ones.
\<close>

datatype pval = PStr string | PNum int | PFrac rat | PNaN | PNegInfinity

record query =
  q :: "string option"
  page :: "string option"
  per_page :: "string option"
  asset :: "string option"

text \<open>A destructuring default \<^verbatim>\<open>{ x = d } = req.query\<close> applies when \<open>x\<close> is missing.\<close>

definition or_default :: "pval \<Rightarrow> string option \<Rightarrow> pval" where
  "or_default d v = (case v of None \<Rightarrow> d | Some s \<Rightarrow> PStr s)"

definition text_or_default :: "string \<Rightarrow> string option \<Rightarrow> string" where
  "text_or_default d v = (case v of None \<Rightarrow> d | Some s \<Rightarrow> s)"

subsection \<open>Numbers\<close>

text \<open>
  A JavaScript number is a double: NaN, an infinity, or a finite value, which is a
  rational number (the two zeros are not told apart).
\<close>

datatype jsnumber = NaN | NegInfinity | Finite rat | PosInfinity

definition pow2 :: "int \<Rightarrow> rat" where
  "pow2 k = (if 0 \<le> k then 2 ^ nat k else 1 / 2 ^ nat (- k))"

definition pow10 :: "int \<Rightarrow> rat" where
  "pow10 k = (if 0 \<le> k then 10 ^ nat k else 1 / 10 ^ nat (- k))"

text \<open>The number of binary digits of a positive integer.\<close>

function bit_length :: "int \<Rightarrow> int" where
  "bit_length n = (if n \<le> 0 then 0 else 1 + bit_length (n div 2))"
  by pat_completeness auto
termination
  by (relation "measure nat") auto

text \<open>For a positive \<open>a\<close>, the \<open>e\<close> with \<open>2 ^ e \<le> a < 2 ^ (e + 1)\<close>.\<close>

definition floor_log2 :: "rat \<Rightarrow> int" where
  "floor_log2 a =
     (let (p, q) = quotient_of a;
          d = bit_length p - bit_length q
      in if pow2 d \<le> a then d else d - 1)"

text \<open>The nearest integer, a tie going to the even one.\<close>

definition round_half_even :: "rat \<Rightarrow> int" where
  "round_half_even x =
     (let k = \<lfloor>x\<rfloor>; f = x - of_int k
      in if f < 1 / 2 then k else if 1 / 2 < f then k + 1 else if even k then k else k + 1)"

text \<open>
  The double nearest to a rational \<open>a\<close>. With \<open>2 ^ e \<le> \<bar>a\<bar> < 2 ^ (e + 1)\<close>, and \<open>e\<close>
  not below the exponent of the subnormal numbers, the doubles around \<open>\<bar>a\<bar>\<close> are the
  multiples of \<open>2 ^ (e - 52)\<close>, and \<open>k\<close> counts the nearest one, a tie going to the even
  count. The result is an infinity when it reaches \<open>2 ^ 1024\<close>, that is when \<open>e\<close> is above
  1023, or is 1023 and \<open>k\<close> was rounded up to \<open>2 ^ 53\<close>.
\<close>

definition round_double :: "rat \<Rightarrow> jsnumber" where
  "round_double a =
     (if a = 0 then Finite 0
      else
        (let m = \<bar>a\<bar>;
             e = max (floor_log2 m) (- 1022);
             ulp = pow2 (e - 52);
             k = round_half_even (m / ulp)
         in if 1023 < e \<or> (e = 1023 \<and> k = 9007199254740992)
            then (if a < 0 then NegInfinity else PosInfinity)
            else Finite (if a < 0 then - (of_int k * ulp) else of_int k * ulp)))"

text \<open>
  White space and line terminators among the code points below 256: tab, line feed,
  vertical tab, form feed, carriage return, space and no-break space.
\<close>

definition is_space :: "char \<Rightarrow> bool" where
  "is_space c = (of_char c \<in> {9, 10, 11, 12, 13, 32, 160 :: int})"

definition trim :: "string \<Rightarrow> string" where
  "trim s = rev (dropWhile is_space (rev (dropWhile is_space s)))"

text \<open>The value of a character as a digit, letters counting from ten in either case.\<close>

definition digit_value :: "char \<Rightarrow> int option" where
  "digit_value c =
     (let n = of_char c :: int
      in if 48 \<le> n \<and> n \<le> 57 then Some (n - 48)
         else if 97 \<le> n \<and> n \<le> 102 then Some (n - 87)
         else if 65 \<le> n \<and> n \<le> 70 then Some (n - 55)
         else None)"

definition is_digit_of :: "int \<Rightarrow> char \<Rightarrow> bool" where
  "is_digit_of b c = (case digit_value c of None \<Rightarrow> False | Some d \<Rightarrow> d < b)"

definition digits_value :: "int \<Rightarrow> string \<Rightarrow> int" where
  "digits_value b s =
     foldl (\<lambda>n c. b * n + (case digit_value c of None \<Rightarrow> 0 | Some d \<Rightarrow> d)) 0 s"

text \<open>
  A literal in another base: \<^verbatim>\<open>0x\<close>, \<^verbatim>\<open>0o\<close> or \<^verbatim>\<open>0b\<close> in either case, then one or
  more digits of the base, and no sign.
\<close>

definition radix_of :: "char \<Rightarrow> int option" where
  "radix_of c =
     (if c = CHR ''x'' \<or> c = CHR ''X'' then Some 16
      else if c = CHR ''o'' \<or> c = CHR ''O'' then Some 8
      else if c = CHR ''b'' \<or> c = CHR ''B'' then Some 2
      else None)"

definition non_decimal_value :: "string \<Rightarrow> rat option" where
  "non_decimal_value s =
     (case s of
        z # c # ds \<Rightarrow>
          (case radix_of c of
             Some b \<Rightarrow>
               (if z = CHR ''0'' \<and> ds \<noteq> [] \<and> list_all (is_digit_of b) ds
                then Some (of_int (digits_value b ds)) else None)
           | None \<Rightarrow> None)
      | _ \<Rightarrow> None)"

text \<open>
  The exponent part of a decimal literal: nothing, or \<^verbatim>\<open>e\<close> in either case, an optional
  sign and one or more digits.
\<close>

definition exponent_value :: "string \<Rightarrow> int option" where
  "exponent_value s =
     (case s of
        [] \<Rightarrow> Some 0
      | c # t \<Rightarrow>
          (if c = CHR ''e'' \<or> c = CHR ''E'' then
             (let (neg, ds) =
                    (case t of
                       [] \<Rightarrow> (False, [])
                     | g # u \<Rightarrow>
                         (if g = CHR ''-'' then (True, u)
                          else if g = CHR ''+'' then (False, u) else (False, t)))
              in if ds \<noteq> [] \<and> list_all (is_digit_of 10) ds
                 then Some (if neg then - digits_value 10 ds else digits_value 10 ds)
                 else None)
           else None))"

text \<open>
  An unsigned decimal literal: digits, an optional point with optional digits after it,
  or a point with digits after it, and then an exponent part. Its value is exact.
\<close>

definition unsigned_decimal_value :: "string \<Rightarrow> rat option" where
  "unsigned_decimal_value s =
     (let ip = takeWhile (is_digit_of 10) s;
          r = dropWhile (is_digit_of 10) s;
          (fp, r') =
            (case r of
               [] \<Rightarrow> ([], [])
             | c # t \<Rightarrow>
                 (if c = CHR ''.'' then (takeWhile (is_digit_of 10) t, dropWhile (is_digit_of 10) t)
                  else ([], r)))
      in if ip = [] \<and> fp = [] then None
         else
           (case exponent_value r' of
              None \<Rightarrow> None
            | Some ex \<Rightarrow>
                Some (of_int (digits_value 10 (ip @ fp)) * pow10 (ex - int (length fp)))))"

text \<open>A decimal literal: an optional sign, then \<^verbatim>\<open>Infinity\<close> or an unsigned literal.\<close>

definition decimal_number :: "string \<Rightarrow> jsnumber" where
  "decimal_number s =
     (let (neg, u) =
            (case s of
               [] \<Rightarrow> (False, [])
             | c # t \<Rightarrow>
                 (if c = CHR ''-'' then (True, t)
                  else if c = CHR ''+'' then (False, t) else (False, s)))
      in if u = ''Infinity'' then (if neg then NegInfinity else PosInfinity)
         else
           (case unsigned_decimal_value u of
              None \<Rightarrow> NaN
            | Some v \<Rightarrow> round_double (if neg then - v else v)))"

text \<open>
  The number JavaScript reads from a text (\<^verbatim>\<open>StringToNumber\<close>): white space around it is
  dropped, nothing is 0, a numeric literal is the double nearest to its value, and any
  other text is NaN.
\<close>

definition StringToNumber :: "string \<Rightarrow> jsnumber" where
  "StringToNumber s =
     (let t = trim s
      in if t = [] then Finite 0
         else
           (case non_decimal_value t of
              Some v \<Rightarrow> round_double v
            | None \<Rightarrow> decimal_number t))"

text \<open>The number JavaScript reads from a parameter value.\<close>

definition toNumber :: "pval \<Rightarrow> jsnumber" where
  "toNumber v =
     (case v of
        PStr s \<Rightarrow> StringToNumber s
      | PNum n \<Rightarrow> Finite (of_int n)
      | PFrac r \<Rightarrow> Finite r
      | PNaN \<Rightarrow> NaN
      | PNegInfinity \<Rightarrow> NegInfinity)"

text \<open>A finite number as a parameter value.\<close>

definition finite_pval :: "rat \<Rightarrow> pval" where
  "finite_pval r = (if r = of_int \<lfloor>r\<rfloor> then PNum \<lfloor>r\<rfloor> else PFrac r)"

text \<open>\<^verbatim>\<open>Math.min(v, m)\<close> for an integer \<open>m\<close>.\<close>

definition Math_min :: "pval \<Rightarrow> int \<Rightarrow> pval" where
  "Math_min v m =
     (case toNumber v of
        NaN \<Rightarrow> PNaN
      | NegInfinity \<Rightarrow> PNegInfinity
      | Finite r \<Rightarrow> finite_pval (min r (of_int m))
      | PosInfinity \<Rightarrow> PNum m)"


subsection \<open>Requests, errors and answers\<close>

text \<open>The configuration axios is called with (the method is always GET).\<close>

record request =
  url :: string
  headers :: "(string \<times> string) list"
  params :: "(string \<times> pval) list"

text \<open>
  What axios rejects with: \<^verbatim>\<open>error.response\<close> is there when the provider answered
  with a status outside 2xx and missing on a network failure; \<open>r_data_message\<close> is
  \<^verbatim>\<open>error.response.data?.message\<close>. An \<^verbatim>\<open>Error\<close> thrown by the server itself has no
  response.
\<close>

record error_response =
  r_status :: int
  r_data_message :: jsval

record js_error =
  e_response :: "error_response option"
  e_message :: string

text \<open>
  The provider as the server sees it through axios: every request is answered by the
  payload of a 2xx response (\<open>Inr\<close>) or rejected (\<open>Inl\<close>).
\<close>

type_synonym 'p provider = "request \<Rightarrow> js_error + 'p"

text \<open>An environment variable is missing or a text; \<^verbatim>\<open>!VAR\<close> holds for both missing and empty.\<close>

definition configured :: "string option \<Rightarrow> bool" where
  "configured v = (case v of None \<Rightarrow> False | Some s \<Rightarrow> s \<noteq> [])"

text \<open>
  The JSON body and status of a search route's answer. A field that is \<open>JUndefined\<close> is
  left out of the JSON.
\<close>

record 'a body =
  success :: bool
  data :: "'a list"
  pagination :: jsval
  b_note :: jsval
  error :: jsval
  message :: jsval

text \<open>
  What a handler answers with: the status, the object it hands to \<^verbatim>\<open>res.json\<close>, and
  what Express sends of it.
\<close>

record 'a reply =
  http_status :: int
  body :: "'a body"
  sent :: "'a body option"

text \<open>
  The statuses that go out without a body: Express empties the body of a 204, a 205 and
  a 304 before it sends, and Node sends none with a 1xx.
\<close>

definition strips_body :: "int \<Rightarrow> bool" where
  "strips_body s = ((100 \<le> s \<and> s \<le> 199) \<or> s = 204 \<or> s = 205 \<or> s = 304)"

text \<open>
  \<^verbatim>\<open>res.status(s).json(b)\<close>, for a status from 100 to 999 (Express refuses any other)
  and a GET request without cache validators.
\<close>

definition res_json :: "int \<Rightarrow> 'a body \<Rightarrow> 'a reply" where
  "res_json s b =
     \<lparr>http_status = s, body = b, sent = (if strips_body s then None else Some b)\<rparr>"

text \<open>\<^verbatim>\<open>{}\<close>, the pagination of a payload without one.\<close>

definition empty_object :: jsval where
  "empty_object = JObj ''[object Object]''"

text \<open>\<^verbatim>\<open>res.json({ success: true, data, pagination })\<close>, with the default status 200.\<close>

definition ok_reply :: "'a list \<Rightarrow> jsval \<Rightarrow> jsval \<Rightarrow> 'a reply" where
  "ok_reply items pag nt =
     res_json 200
       \<lparr>success = True, data = items, pagination = pag, b_note = nt,
        error = JUndefined, message = JUndefined\<rparr>"

text \<open>
  The \<^verbatim>\<open>catch\<close> block every search route ends with, the same but for the text of
  \<^verbatim>\<open>error\<close>, for an error whose status, when it has one, is from 100 to 999:
  \<^verbatim>\<open>res.status(error.response?.status || 500).json({ success: false, error: what,
  message: error.response?.data?.message || error.message, data: [] })\<close>.
\<close>

definition error_reply :: "string \<Rightarrow> js_error \<Rightarrow> 'a reply" where
  "error_reply what e =
     res_json
       (case e_response e of
          None \<Rightarrow> 500
        | Some r \<Rightarrow> (if r_status r = 0 then 500 else r_status r))
       \<lparr>success = False, data = [], pagination = JUndefined, b_note = JUndefined,
        error = JStr what,
        message =
          js_or (case e_response e of None \<Rightarrow> JUndefined | Some r \<Rightarrow> r_data_message r)
            (JStr (e_message e))\<rparr>"


section \<open>The IconScout server\<close>

text \<open>
  \<^verbatim>\<open>server.js\<close> holds two versions of the server, one for each provider it has
  proxied: the first talks to IconScout, the second to Freepik. They share the counter
  above and the shape of their search routes.
\<close>

definition ICONSCOUT_API_BASE :: string where
  "ICONSCOUT_API_BASE = ''https://api.iconscout.com/v3''"

text \<open>
  \<^verbatim>\<open>fetchFromIconScout(endpoint, params)\<close>, given \<^verbatim>\<open>CLIENT_ID\<close> and the provider. The
  result comes with the list of requests that went out. The \<^verbatim>\<open>catch\<close> block logs and
  rethrows, so an error passes through unchanged.
\<close>

definition fetchFromIconScout ::
  "string option \<Rightarrow> 'p provider \<Rightarrow> string \<Rightarrow> (string \<times> pval) list
     \<Rightarrow> (js_error + 'p) \<times> request list" where
  "fetchFromIconScout CLIENT_ID net endpoint ps =
     (case CLIENT_ID of
        Some cid \<Rightarrow>
          (if cid = [] then
             (Inl \<lparr>e_response = None,
                   e_message = ''ICONSCOUT_CLIENT_ID environment variable is not set''\<rparr>, [])
           else
             (let r = \<lparr>url = ICONSCOUT_API_BASE @ endpoint,
                       headers = [(''Client-ID'', cid), (''client-id'', cid),
                                  (''Authorization'', ''Bearer '' @ cid), (''X-Client-ID'', cid)],
                       params = ps\<rparr>
              in (net r, [r])))
      | None \<Rightarrow>
          (Inl \<lparr>e_response = None,
                e_message = ''ICONSCOUT_CLIENT_ID environment variable is not set''\<rparr>, []))"

text \<open>
  The payload of IconScout, as far as the routes read it:
  \<^verbatim>\<open>data.response?.items?.data\<close> and \<^verbatim>\<open>data.response?.items?.pagination\<close>. The items
  are handed on as they are, so their type is left open.
\<close>

record 'a iconscout_items =
  is_data :: "'a list option"
  is_pagination :: jsval

record 'a iconscout_response =
  is_items :: "'a iconscout_items option"

record 'a iconscout_data =
  is_response :: "'a iconscout_response option"

definition iconscout_items_of :: "'a iconscout_data \<Rightarrow> 'a iconscout_items option" where
  "iconscout_items_of d = (case is_response d of None \<Rightarrow> None | Some r \<Rightarrow> is_items r)"

text \<open>The \<^verbatim>\<open>try\<close> block's answer to a payload, the same in all five routes.\<close>

definition iconscout_ok :: "'a iconscout_data \<Rightarrow> 'a reply" where
  "iconscout_ok d =
     ok_reply
       (case iconscout_items_of d of
          None \<Rightarrow> []
        | Some i \<Rightarrow> (case is_data i of None \<Rightarrow> [] | Some xs \<Rightarrow> xs))
       (js_or (case iconscout_items_of d of None \<Rightarrow> JUndefined | Some i \<Rightarrow> is_pagination i)
          empty_object)
       JUndefined"

text \<open>The parameters of \<^verbatim>\<open>/search\<close> for an asset kind.\<close>

definition iconscout_params :: "query \<Rightarrow> pval \<Rightarrow> (string \<times> pval) list" where
  "iconscout_params qy kind =
     [(''query'', or_default (PStr ''popular'') (q qy)),
      (''asset'', kind),
      (''page'', or_default (PNum 1) (page qy)),
      (''per_page'', or_default (PNum 20) (per_page qy)),
      (''price'', PStr ''free'')]"

text \<open>
  The five search handlers are the same code but for the asset kind they ask for and
  the text of \<^verbatim>\<open>error\<close>: fetch, then answer with the payload's items, or with the
  error from the \<^verbatim>\<open>catch\<close> block.
\<close>

definition iconscout_route ::
  "string \<Rightarrow> pval \<Rightarrow> string option \<Rightarrow> 'a iconscout_data provider \<Rightarrow> query
     \<Rightarrow> 'a reply \<times> request list" where
  "iconscout_route what kind CLIENT_ID net qy =
     (case fetchFromIconScout CLIENT_ID net ''/search'' (iconscout_params qy kind) of
        (Inr d, out) \<Rightarrow> (iconscout_ok d, out)
      | (Inl e, out) \<Rightarrow> (error_reply what e, out))"

text \<open>\<^verbatim>\<open>GET /api/icons\<close>, \<^verbatim>\<open>/api/3d-icons\<close>, \<^verbatim>\<open>/api/illustrations\<close>, \<^verbatim>\<open>/api/lottie\<close>
  and \<^verbatim>\<open>/api/search\<close> of the IconScout server.\<close>

definition iconscout_icons ::
  "string option \<Rightarrow> 'a iconscout_data provider \<Rightarrow> query \<Rightarrow> 'a reply \<times> request list" where
  "iconscout_icons = iconscout_route ''Failed to fetch icons'' (PStr ''icon'')"

definition iconscout_3d_icons ::
  "string option \<Rightarrow> 'a iconscout_data provider \<Rightarrow> query \<Rightarrow> 'a reply \<times> request list" where
  "iconscout_3d_icons = iconscout_route ''Failed to fetch 3D icons'' (PStr ''3d'')"

definition iconscout_illustrations ::
  "string option \<Rightarrow> 'a iconscout_data provider \<Rightarrow> query \<Rightarrow> 'a reply \<times> request list" where
  "iconscout_illustrations =
     iconscout_route ''Failed to fetch illustrations'' (PStr ''illustration'')"

definition iconscout_lottie ::
  "string option \<Rightarrow> 'a iconscout_data provider \<Rightarrow> query \<Rightarrow> 'a reply \<times> request list" where
  "iconscout_lottie = iconscout_route ''Failed to fetch Lottie animations'' (PStr ''lottie'')"

definition iconscout_search ::
  "string option \<Rightarrow> 'a iconscout_data provider \<Rightarrow> query \<Rightarrow> 'a reply \<times> request list" where
  "iconscout_search CLIENT_ID net qy =
     iconscout_route ''Failed to fetch assets'' (or_default (PStr ''icon'') (asset qy))
       CLIENT_ID net qy"


section \<open>The Freepik server\<close>

definition FREEPIK_API_BASE :: string where
  "FREEPIK_API_BASE = ''https://api.freepik.com/v1''"

text \<open>
  \<^verbatim>\<open>fetchFromFreepik(endpoint, params)\<close>, given \<^verbatim>\<open>FREEPIK_API_KEY\<close> and the provider,
  with the list of requests that went out.
\<close>

definition fetchFromFreepik ::
  "string option \<Rightarrow> 'p provider \<Rightarrow> string \<Rightarrow> (string \<times> pval) list
     \<Rightarrow> (js_error + 'p) \<times> request list" where
  "fetchFromFreepik FREEPIK_API_KEY net endpoint ps =
     (case FREEPIK_API_KEY of
        Some k \<Rightarrow>
          (if k = [] then
             (Inl \<lparr>e_response = None,
                   e_message = ''FREEPIK_API_KEY environment variable is not set''\<rparr>, [])
           else
             (let r = \<lparr>url = FREEPIK_API_BASE @ endpoint,
                       headers = [(''x-freepik-api-key'', k), (''Accept-Language'', ''en-US'')],
                       params = ps\<rparr>
              in (net r, [r])))
      | None \<Rightarrow>
          (Inl \<lparr>e_response = None,
                e_message = ''FREEPIK_API_KEY environment variable is not set''\<rparr>, []))"

text \<open>
  The payload of Freepik, as far as the transforms read it. A field that the payload
  lacks is \<open>JUndefined\<close>, or \<open>None\<close> where it would hold a list or an object.
\<close>

record thumbnail =
  t_size :: jsval
  t_key :: jsval
  t_url :: jsval

record image_source =
  s_url :: jsval

record image =
  i_source :: "image_source option"

record item =
  item_id :: jsval
  item_description :: jsval
  item_name :: jsval
  item_title :: jsval
  item_filename :: jsval
  item_thumbnails :: "thumbnail list option"
  item_image :: "image option"

record freepik_data =
  fd_data :: "item list option"
  fd_meta :: jsval

text \<open>What the front end receives for an item.\<close>

record urls =
  png_128 :: jsval
  png_64 :: jsval
  thumb :: jsval

record asset =
  a_id :: jsval
  a_uuid :: string
  a_name :: jsval
  a_urls :: urls
  a_preview :: jsval

text \<open>\<^verbatim>\<open>item.thumbnails?.find(p)?.url\<close>.\<close>

definition find_url :: "(thumbnail \<Rightarrow> bool) \<Rightarrow> item \<Rightarrow> jsval" where
  "find_url p it =
     (case item_thumbnails it of
        None \<Rightarrow> JUndefined
      | Some ts \<Rightarrow> (case find p ts of None \<Rightarrow> JUndefined | Some t \<Rightarrow> t_url t))"

text \<open>\<^verbatim>\<open>item.thumbnails?.[0]?.url\<close>.\<close>

definition first_url :: "item \<Rightarrow> jsval" where
  "first_url it =
     (case item_thumbnails it of
        None \<Rightarrow> JUndefined
      | Some [] \<Rightarrow> JUndefined
      | Some (t # ts) \<Rightarrow> t_url t)"

text \<open>\<^verbatim>\<open>item.image?.source?.url\<close>.\<close>

definition source_url :: "item \<Rightarrow> jsval" where
  "source_url it =
     (case item_image it of
        None \<Rightarrow> JUndefined
      | Some im \<Rightarrow> (case i_source im of None \<Rightarrow> JUndefined | Some src \<Rightarrow> s_url src))"

text \<open>\<^verbatim>\<open>freepikData.data || []\<close>.\<close>

definition items_of :: "freepik_data \<Rightarrow> item list" where
  "items_of d = (case fd_data d of None \<Rightarrow> [] | Some xs \<Rightarrow> xs)"

text \<open>
  \<^verbatim>\<open>transformIconResponse\<close> and \<^verbatim>\<open>transformResourceResponse\<close> map the function below
  them over the items.
\<close>

definition transformIcon :: "item \<Rightarrow> asset" where
  "transformIcon it =
     \<lparr>a_id = item_id it,
      a_uuid = js_String (item_id it),
      a_name = js_or (item_description it) (js_or (item_name it) (JStr ''Untitled Icon'')),
      a_urls =
        \<lparr>png_128 = js_or (find_url (\<lambda>t. t_size t = JNum 128) it) (first_url it),
         png_64 = js_or (find_url (\<lambda>t. t_size t = JNum 64) it) (first_url it),
         thumb = first_url it\<rparr>,
      a_preview = first_url it\<rparr>"

definition transformIconResponse :: "freepik_data \<Rightarrow> asset list" where
  "transformIconResponse freepikData = map transformIcon (items_of freepikData)"

definition transformResource :: "item \<Rightarrow> asset" where
  "transformResource it =
     \<lparr>a_id = item_id it,
      a_uuid = js_String (item_id it),
      a_name = js_or (item_title it) (js_or (item_filename it) (JStr ''Untitled'')),
      a_urls =
        \<lparr>png_128 = js_or (source_url it) (find_url (\<lambda>t. t_key t = JStr ''small'') it),
         png_64 = js_or (source_url it) (find_url (\<lambda>t. t_key t = JStr ''small'') it),
         thumb = js_or (source_url it) (first_url it)\<rparr>,
      a_preview = source_url it\<rparr>"

definition transformResourceResponse :: "freepik_data \<Rightarrow> asset list" where
  "transformResourceResponse freepikData = map transformResource (items_of freepikData)"

text \<open>\<^verbatim>\<open>data.meta || {}\<close>.\<close>

definition meta_of :: "freepik_data \<Rightarrow> jsval" where
  "meta_of d = js_or (fd_meta d) empty_object"

text \<open>
  The text of \<^verbatim>\<open>q\<close> after its default; \<^verbatim>\<open>q + ' 3d'\<close> appends to it.
\<close>

definition term_of :: "query \<Rightarrow> string" where
  "term_of qy = text_or_default ''popular'' (q qy)"

text \<open>\<^verbatim>\<open>GET /api/icons\<close>.\<close>

definition freepik_icons ::
  "string option \<Rightarrow> freepik_data provider \<Rightarrow> query \<Rightarrow> asset reply \<times> request list" where
  "freepik_icons FREEPIK_API_KEY net qy =
     (case fetchFromFreepik FREEPIK_API_KEY net ''/icons''
             [(''term'', PStr (term_of qy)),
              (''page'', or_default (PNum 1) (page qy)),
              (''per_page'', Math_min (or_default (PNum 20) (per_page qy)) 100),
              (''order'', PStr ''relevance''),
              (''filters[license][freemium]'', PNum 1)] of
        (Inr d, out) \<Rightarrow> (ok_reply (transformIconResponse d) (meta_of d) JUndefined, out)
      | (Inl e, out) \<Rightarrow> (error_reply ''Failed to fetch icons'' e, out))"

text \<open>\<^verbatim>\<open>GET /api/3d-icons\<close>.\<close>

definition freepik_3d_icons ::
  "string option \<Rightarrow> freepik_data provider \<Rightarrow> query \<Rightarrow> asset reply \<times> request list" where
  "freepik_3d_icons FREEPIK_API_KEY net qy =
     (case fetchFromFreepik FREEPIK_API_KEY net ''/resources''
             [(''term'', PStr (term_of qy @ '' 3d'')),
              (''page'', or_default (PNum 1) (page qy)),
              (''limit'', Math_min (or_default (PNum 20) (per_page qy)) 100),
              (''order'', PStr ''relevance''),
              (''filters[content_type][vector]'', PNum 1),
              (''filters[vector][style]'', PStr ''3d''),
              (''filters[license][freemium]'', PNum 1)] of
        (Inr d, out) \<Rightarrow> (ok_reply (transformResourceResponse d) (meta_of d) JUndefined, out)
      | (Inl e, out) \<Rightarrow> (error_reply ''Failed to fetch 3D assets'' e, out))"

text \<open>\<^verbatim>\<open>GET /api/illustrations\<close>.\<close>

definition freepik_illustrations ::
  "string option \<Rightarrow> freepik_data provider \<Rightarrow> query \<Rightarrow> asset reply \<times> request list" where
  "freepik_illustrations FREEPIK_API_KEY net qy =
     (case fetchFromFreepik FREEPIK_API_KEY net ''/resources''
             [(''term'', PStr (term_of qy)),
              (''page'', or_default (PNum 1) (page qy)),
              (''limit'', Math_min (or_default (PNum 20) (per_page qy)) 100),
              (''order'', PStr ''relevance''),
              (''filters[content_type][vector]'', PNum 1),
              (''filters[license][freemium]'', PNum 1)] of
        (Inr d, out) \<Rightarrow> (ok_reply (transformResourceResponse d) (meta_of d) JUndefined, out)
      | (Inl e, out) \<Rightarrow> (error_reply ''Failed to fetch illustrations'' e, out))"

text \<open>\<^verbatim>\<open>GET /api/lottie\<close>: Freepik has no Lottie animations, so the route searches
  vectors with motion keywords and says so in \<^verbatim>\<open>note\<close>.\<close>

definition lottie_note :: string where
  "lottie_note =
     ''Freepik does not have native Lottie animations. Showing animated/motion vectors instead.''"

definition freepik_lottie ::
  "string option \<Rightarrow> freepik_data provider \<Rightarrow> query \<Rightarrow> asset reply \<times> request list" where
  "freepik_lottie FREEPIK_API_KEY net qy =
     (case fetchFromFreepik FREEPIK_API_KEY net ''/resources''
             [(''term'', PStr (term_of qy @ '' animation motion'')),
              (''page'', or_default (PNum 1) (page qy)),
              (''limit'', Math_min (or_default (PNum 20) (per_page qy)) 100),
              (''order'', PStr ''relevance''),
              (''filters[content_type][vector]'', PNum 1),
              (''filters[license][freemium]'', PNum 1)] of
        (Inr d, out) \<Rightarrow>
          (ok_reply (transformResourceResponse d) (meta_of d) (JStr lottie_note), out)
      | (Inl e, out) \<Rightarrow> (error_reply ''Failed to fetch animations'' e, out))"

text \<open>The \<^verbatim>\<open>filters\<close> object that \<^verbatim>\<open>GET /api/search\<close> builds for an asset kind other
  than \<^verbatim>\<open>icon\<close>.\<close>

definition search_filters :: "string \<Rightarrow> (string \<times> pval) list" where
  "search_filters a =
     (if a = ''3d'' then
        [(''filters[content_type][vector]'', PNum 1), (''filters[vector][style]'', PStr ''3d'')]
      else if a = ''illustration'' \<or> a = ''vector'' then
        [(''filters[content_type][vector]'', PNum 1)]
      else if a = ''photo'' then
        [(''filters[content_type][photo]'', PNum 1)]
      else [])"

text \<open>\<^verbatim>\<open>GET /api/search\<close>.\<close>

definition freepik_search ::
  "string option \<Rightarrow> freepik_data provider \<Rightarrow> query \<Rightarrow> asset reply \<times> request list" where
  "freepik_search FREEPIK_API_KEY net qy =
     (let a = text_or_default ''icon'' (asset qy) in
      case
        (if a = ''icon'' then
           (case fetchFromFreepik FREEPIK_API_KEY net ''/icons''
                   [(''term'', PStr (term_of qy)),
                    (''page'', or_default (PNum 1) (page qy)),
                    (''per_page'', Math_min (or_default (PNum 20) (per_page qy)) 100),
                    (''order'', PStr ''relevance''),
                    (''filters[license][freemium]'', PNum 1)] of
              (Inr d, out) \<Rightarrow> (Inr (transformIconResponse d, d), out)
            | (Inl e, out) \<Rightarrow> (Inl e, out))
         else
           (case fetchFromFreepik FREEPIK_API_KEY net ''/resources''
                   ([(''term'', PStr (term_of qy)),
                     (''page'', or_default (PNum 1) (page qy)),
                     (''limit'', Math_min (or_default (PNum 20) (per_page qy)) 100),
                     (''order'', PStr ''relevance''),
                     (''filters[license][freemium]'', PNum 1)] @ search_filters a) of
              (Inr d, out) \<Rightarrow> (Inr (transformResourceResponse d, d), out)
            | (Inl e, out) \<Rightarrow> (Inl e, out))) of
        (Inr (transformedData, d), out) \<Rightarrow> (ok_reply transformedData (meta_of d) JUndefined, out)
      | (Inl e, out) \<Rightarrow> (error_reply ''Failed to fetch assets'' e, out))"


section \<open>The routing tables\<close>

text \<open>The search routes that \<^verbatim>\<open>app.get\<close> registers, in both servers.\<close>

datatype route = Icons | Icons3d | Illustrations | Lottie | Search

fun iconscout_app ::
  "route \<Rightarrow> string option \<Rightarrow> 'a iconscout_data provider \<Rightarrow> query \<Rightarrow> 'a reply \<times> request list" where
  "iconscout_app Icons = iconscout_icons"
| "iconscout_app Icons3d = iconscout_3d_icons"
| "iconscout_app Illustrations = iconscout_illustrations"
| "iconscout_app Lottie = iconscout_lottie"
| "iconscout_app Search = iconscout_search"

fun freepik_app ::
  "route \<Rightarrow> string option \<Rightarrow> freepik_data provider \<Rightarrow> query \<Rightarrow> asset reply \<times> request list" where
  "freepik_app Icons = freepik_icons"
| "freepik_app Icons3d = freepik_3d_icons"
| "freepik_app Illustrations = freepik_illustrations"
| "freepik_app Lottie = freepik_lottie"
| "freepik_app Search = freepik_search"


section \<open>Observations and sample data\<close>

text \<open>
  What each route of the two tables asks of the provider and answers with, read off the
  handlers above: the endpoint, the parameters, the text of \<^verbatim>\<open>error\<close>, and the kind
  IconScout is asked for.
\<close>

definition uses_icons :: "route \<Rightarrow> query \<Rightarrow> bool" where
  "uses_icons rt qy = (rt = Icons \<or> (rt = Search \<and> text_or_default ''icon'' (asset qy) = ''icon''))"

definition freepik_endpoint :: "route \<Rightarrow> query \<Rightarrow> string" where
  "freepik_endpoint rt qy = (if uses_icons rt qy then ''/icons'' else ''/resources'')"

definition freepik_params :: "route \<Rightarrow> query \<Rightarrow> (string \<times> pval) list" where
  "freepik_params rt qy =
     [(''term'',
       PStr (term_of qy @
         (if rt = Icons3d then '' 3d'' else if rt = Lottie then '' animation motion'' else []))),
      (''page'', or_default (PNum 1) (page qy)),
      (if uses_icons rt qy then ''per_page'' else ''limit'',
       Math_min (or_default (PNum 20) (per_page qy)) 100),
      (''order'', PStr ''relevance'')]
     @ (case rt of
          Icons \<Rightarrow> [(''filters[license][freemium]'', PNum 1)]
        | Icons3d \<Rightarrow>
            [(''filters[content_type][vector]'', PNum 1), (''filters[vector][style]'', PStr ''3d''),
             (''filters[license][freemium]'', PNum 1)]
        | Illustrations \<Rightarrow>
            [(''filters[content_type][vector]'', PNum 1), (''filters[license][freemium]'', PNum 1)]
        | Lottie \<Rightarrow>
            [(''filters[content_type][vector]'', PNum 1), (''filters[license][freemium]'', PNum 1)]
        | Search \<Rightarrow>
            (''filters[license][freemium]'', PNum 1) #
            (if uses_icons rt qy then [] else search_filters (text_or_default ''icon'' (asset qy))))"

definition freepik_error_text :: "route \<Rightarrow> string" where
  "freepik_error_text rt =
     (case rt of
        Icons \<Rightarrow> ''Failed to fetch icons''
      | Icons3d \<Rightarrow> ''Failed to fetch 3D assets''
      | Illustrations \<Rightarrow> ''Failed to fetch illustrations''
      | Lottie \<Rightarrow> ''Failed to fetch animations''
      | Search \<Rightarrow> ''Failed to fetch assets'')"

definition iconscout_kind :: "route \<Rightarrow> query \<Rightarrow> pval" where
  "iconscout_kind rt qy =
     (case rt of
        Icons \<Rightarrow> PStr ''icon''
      | Icons3d \<Rightarrow> PStr ''3d''
      | Illustrations \<Rightarrow> PStr ''illustration''
      | Lottie \<Rightarrow> PStr ''lottie''
      | Search \<Rightarrow> or_default (PStr ''icon'') (asset qy))"

definition iconscout_error_text :: "route \<Rightarrow> string" where
  "iconscout_error_text rt =
     (case rt of
        Icons \<Rightarrow> ''Failed to fetch icons''
      | Icons3d \<Rightarrow> ''Failed to fetch 3D icons''
      | Illustrations \<Rightarrow> ''Failed to fetch illustrations''
      | Lottie \<Rightarrow> ''Failed to fetch Lottie animations''
      | Search \<Rightarrow> ''Failed to fetch assets'')"

text \<open>The page-size parameter of a request: \<^verbatim>\<open>per_page\<close>, or \<^verbatim>\<open>limit\<close> on the
  resources endpoint.\<close>

definition page_size_param :: "request \<Rightarrow> pval option" where
  "page_size_param r =
     (case map_of (params r) ''per_page'' of
        Some v \<Rightarrow> Some v
      | None \<Rightarrow> map_of (params r) ''limit'')"

text \<open>
  The page size a query asks for, 20 when it names none, when JavaScript reads it as an
  integer.
\<close>

definition requested_size :: "query \<Rightarrow> int option" where
  "requested_size qy =
     (case toNumber (or_default (PNum 20) (per_page qy)) of
        Finite r \<Rightarrow> (if r = of_int \<lfloor>r\<rfloor> then Some \<lfloor>r\<rfloor> else None)
      | _ \<Rightarrow> None)"

text \<open>A query that asks for a page size and for nothing else.\<close>

definition size_query :: "string \<Rightarrow> query" where
  "size_query s = \<lparr>q = None, page = None, per_page = Some s, asset = None\<rparr>"

datatype provider_name = IconScout | Freepik

text \<open>
  The routes that serve a kind the provider has no category for: Freepik has no Lottie
  animations (the comment above its \<^verbatim>\<open>/api/lottie\<close>), IconScout is asked for its own
  \<^verbatim>\<open>lottie\<close> assets.
\<close>

definition no_native_category :: "provider_name \<Rightarrow> route \<Rightarrow> bool" where
  "no_native_category p rt = (p = Freepik \<and> rt = Lottie)"

text \<open>
  The order of preference in the specification's words: the thumbnail tagged with the
  pixel size, else the first thumbnail, else the full-resolution image.
\<close>

definition preferred_url :: "int \<Rightarrow> item \<Rightarrow> jsval" where
  "preferred_url n it =
     js_or (find_url (\<lambda>t. t_size t = JNum n) it) (js_or (first_url it) (source_url it))"

text \<open>The display name in the specification's words: title, then filename, then
  \<^verbatim>\<open>Untitled\<close>.\<close>

definition display_name :: "item \<Rightarrow> jsval" where
  "display_name it = js_or (item_title it) (js_or (item_filename it) (JStr ''Untitled''))"

text \<open>
  The status the provider reported, 500 when it gave none, in the specification's words.
\<close>

definition reported_status :: "js_error \<Rightarrow> int" where
  "reported_status e = (case e_response e of None \<Rightarrow> 500 | Some r \<Rightarrow> r_status r)"

text \<open>The message in the provider's error body, \<open>JUndefined\<close> when there is none.\<close>

definition provider_message :: "js_error \<Rightarrow> jsval" where
  "provider_message e = (case e_response e of None \<Rightarrow> JUndefined | Some r \<Rightarrow> r_data_message r)"

text \<open>
  Providers to run the routes against: one that rejects every request with the same
  error, one that answers every request with the same payload, and one that answers
  the requests to one URL and is out of reach for the others.
\<close>

definition provider_fails :: "js_error \<Rightarrow> 'p provider" where
  "provider_fails e r = Inl e"

definition network_error :: js_error where
  "network_error = \<lparr>e_response = None, e_message = ''Network Error''\<rparr>"

definition service_unavailable :: js_error where
  "service_unavailable =
     \<lparr>e_response = Some \<lparr>r_status = 503, r_data_message = JUndefined\<rparr>,
      e_message = ''Request failed with status code 503''\<rparr>"

definition not_modified :: js_error where
  "not_modified =
     \<lparr>e_response = Some \<lparr>r_status = 304, r_data_message = JUndefined\<rparr>,
      e_message = ''Request failed with status code 304''\<rparr>"

definition provider_returns :: "'p \<Rightarrow> 'p provider" where
  "provider_returns d r = Inr d"

definition provider_at :: "string \<Rightarrow> 'p \<Rightarrow> 'p provider" where
  "provider_at u d r = (if url r = u then Inr d else Inl network_error)"

definition sample_query :: query where
  "sample_query = \<lparr>q = Some ''cat'', page = None, per_page = Some ''500'', asset = None\<rparr>"

definition lottie_query :: query where
  "lottie_query = \<lparr>q = Some ''cat'', page = None, per_page = None, asset = Some ''lottie''\<rparr>"

definition sample_item :: item where
  "sample_item =
     \<lparr>item_id = JNum 7,
      item_description = JUndefined,
      item_name = JUndefined,
      item_title = JStr ''Sunset'',
      item_filename = JStr ''sunset.svg'',
      item_thumbnails =
        Some [\<lparr>t_size = JNum 64, t_key = JStr ''tiny'', t_url = JStr ''https://cdn/64.png''\<rparr>,
              \<lparr>t_size = JNum 128, t_key = JStr ''small'', t_url = JStr ''https://cdn/128.png''\<rparr>],
      item_image = Some \<lparr>i_source = Some \<lparr>s_url = JStr ''https://cdn/full.jpg''\<rparr>\<rparr>\<rparr>"

definition image_only_item :: item where
  "image_only_item =
     \<lparr>item_id = JNum 8,
      item_description = JUndefined,
      item_name = JUndefined,
      item_title = JUndefined,
      item_filename = JUndefined,
      item_thumbnails = None,
      item_image = Some \<lparr>i_source = Some \<lparr>s_url = JStr ''https://cdn/full8.jpg''\<rparr>\<rparr>\<rparr>"

definition sample_payload :: freepik_data where
  "sample_payload = \<lparr>fd_data = Some [sample_item], fd_meta = JUndefined\<rparr>"

definition sample_iconscout_payload :: "jsval iconscout_data" where
  "sample_iconscout_payload =
     \<lparr>is_response = Some \<lparr>is_items = Some \<lparr>is_data = Some [JNum 7], is_pagination = JUndefined\<rparr>\<rparr>\<rparr>"


section \<open>Lemmas about the routes\<close>

text \<open>What \<^verbatim>\<open>fetchFromFreepik\<close> and \<^verbatim>\<open>fetchFromIconScout\<close> do with and without a
  credential.\<close>

lemma fetchFromFreepik_configured:
  "configured key \<Longrightarrow>
     fetchFromFreepik key net ep ps =
       (net \<lparr>url = FREEPIK_API_BASE @ ep,
              headers = [(''x-freepik-api-key'', the key), (''Accept-Language'', ''en-US'')],
              params = ps\<rparr>,
        [\<lparr>url = FREEPIK_API_BASE @ ep,
              headers = [(''x-freepik-api-key'', the key), (''Accept-Language'', ''en-US'')],
              params = ps\<rparr>])"
  by (auto simp: fetchFromFreepik_def configured_def Let_def split: option.splits)

lemma fetchFromFreepik_unconfigured:
  "\<not> configured key \<Longrightarrow>
     fetchFromFreepik key net ep ps =
       (Inl \<lparr>e_response = None,
             e_message = ''FREEPIK_API_KEY environment variable is not set''\<rparr>, [])"
  by (auto simp: fetchFromFreepik_def configured_def split: option.splits)

lemma fetchFromIconScout_configured:
  "configured key \<Longrightarrow>
     fetchFromIconScout key net ep ps =
       (net \<lparr>url = ICONSCOUT_API_BASE @ ep,
              headers = [(''Client-ID'', the key), (''client-id'', the key),
                         (''Authorization'', ''Bearer '' @ the key), (''X-Client-ID'', the key)],
              params = ps\<rparr>,
        [\<lparr>url = ICONSCOUT_API_BASE @ ep,
              headers = [(''Client-ID'', the key), (''client-id'', the key),
                         (''Authorization'', ''Bearer '' @ the key), (''X-Client-ID'', the key)],
              params = ps\<rparr>])"
  by (auto simp: fetchFromIconScout_def configured_def Let_def split: option.splits)

lemma fetchFromIconScout_unconfigured:
  "\<not> configured key \<Longrightarrow>
     fetchFromIconScout key net ep ps =
       (Inl \<lparr>e_response = None,
             e_message = ''ICONSCOUT_CLIENT_ID environment variable is not set''\<rparr>, [])"
  by (auto simp: fetchFromIconScout_def configured_def split: option.splits)

text \<open>A handler hands on the requests of its fetch and answers by its two branches.\<close>

lemma snd_handler:
  "snd (case p of (Inr d, out) \<Rightarrow> (f d, out) | (Inl e, out) \<Rightarrow> (g e, out)) = snd p"
  by (auto split: prod.splits sum.splits)

lemma fst_handler:
  "fst (case p of (Inr d, out) \<Rightarrow> (f d, out) | (Inl e, out) \<Rightarrow> (g e, out)) =
     (case fst p of Inr d \<Rightarrow> f d | Inl e \<Rightarrow> g e)"
  by (auto split: prod.splits sum.splits)

text \<open>\<^verbatim>\<open>GET /api/search\<close> of the Freepik server, its two branches merged.\<close>

lemma freepik_search_unfold:
  "freepik_search key net qy =
     (case fetchFromFreepik key net
             (if text_or_default ''icon'' (asset qy) = ''icon'' then ''/icons'' else ''/resources'')
             (if text_or_default ''icon'' (asset qy) = ''icon'' then
                [(''term'', PStr (term_of qy)),
                 (''page'', or_default (PNum 1) (page qy)),
                 (''per_page'', Math_min (or_default (PNum 20) (per_page qy)) 100),
                 (''order'', PStr ''relevance''),
                 (''filters[license][freemium]'', PNum 1)]
              else
                [(''term'', PStr (term_of qy)),
                 (''page'', or_default (PNum 1) (page qy)),
                 (''limit'', Math_min (or_default (PNum 20) (per_page qy)) 100),
                 (''order'', PStr ''relevance''),
                 (''filters[license][freemium]'', PNum 1)]
                @ search_filters (text_or_default ''icon'' (asset qy))) of
        (Inr d, out) \<Rightarrow>
          (ok_reply (if text_or_default ''icon'' (asset qy) = ''icon''
                     then transformIconResponse d else transformResourceResponse d)
             (meta_of d) JUndefined, out)
      | (Inl e, out) \<Rightarrow> (error_reply ''Failed to fetch assets'' e, out))"
  by (auto simp: freepik_search_def Let_def split: prod.splits sum.splits)

lemmas freepik_unfold = freepik_icons_def freepik_3d_icons_def freepik_illustrations_def
  freepik_lottie_def freepik_search_unfold

lemmas iconscout_routes = iconscout_icons_def iconscout_3d_icons_def iconscout_illustrations_def
  iconscout_lottie_def iconscout_search_def iconscout_route_def

text \<open>Every route is one fetch, with the endpoint, parameters and texts of the tables.\<close>

lemma snd_freepik_app:
  "snd (freepik_app rt key net qy) =
     snd (fetchFromFreepik key net (freepik_endpoint rt qy) (freepik_params rt qy))"
  by (cases rt)
     (simp_all add: freepik_unfold snd_handler freepik_endpoint_def freepik_params_def uses_icons_def)

lemma fst_freepik_app:
  "fst (freepik_app rt key net qy) =
     (case fst (fetchFromFreepik key net (freepik_endpoint rt qy) (freepik_params rt qy)) of
        Inr d \<Rightarrow>
          ok_reply (if uses_icons rt qy then transformIconResponse d else transformResourceResponse d)
            (meta_of d) (if rt = Lottie then JStr lottie_note else JUndefined)
      | Inl e \<Rightarrow> error_reply (freepik_error_text rt) e)"
  by (cases rt)
     (simp_all add: freepik_unfold fst_handler freepik_endpoint_def freepik_params_def
        uses_icons_def freepik_error_text_def cong: sum.case_cong)

lemma snd_iconscout_app:
  "snd (iconscout_app rt key net qy) =
     snd (fetchFromIconScout key net ''/search'' (iconscout_params qy (iconscout_kind rt qy)))"
  by (cases rt) (simp_all add: iconscout_routes snd_handler iconscout_kind_def)

lemma fst_iconscout_app:
  "fst (iconscout_app rt key net qy) =
     (case fst (fetchFromIconScout key net ''/search''
                  (iconscout_params qy (iconscout_kind rt qy))) of
        Inr d \<Rightarrow> iconscout_ok d
      | Inl e \<Rightarrow> error_reply (iconscout_error_text rt) e)"
  by (cases rt)
     (simp_all add: iconscout_routes fst_handler iconscout_kind_def iconscout_error_text_def
        cong: sum.case_cong)

text \<open>An answer to a payload has the status 200 and is sent whole.\<close>

lemma ok_reply_sent:
  "http_status (ok_reply items pag nt) = 200"
  "sent (ok_reply items pag nt) = Some (body (ok_reply items pag nt))"
  by (simp_all add: ok_reply_def res_json_def strips_body_def)

text \<open>The page size in the request of a route.\<close>

lemma search_filters_no_page_size:
  "map_of (search_filters a) ''per_page'' = None" "map_of (search_filters a) ''limit'' = None"
  by (simp_all add: search_filters_def)

lemma freepik_out:
  assumes "configured key"
  shows "map page_size_param (snd (freepik_app rt key net qy)) =
     [Some (Math_min (or_default (PNum 20) (per_page qy)) 100)]"
proof -
  have "snd (freepik_app rt key net qy) =
          snd (fetchFromFreepik key net (freepik_endpoint rt qy) (freepik_params rt qy))"
    by (rule snd_freepik_app)
  then show ?thesis
    using assms
    by (cases rt)
       (simp_all add: fetchFromFreepik_configured page_size_param_def freepik_params_def
          search_filters_no_page_size map_add_def)
qed

lemma iconscout_out:
  assumes "configured key"
  shows "map page_size_param (snd (iconscout_app rt key net qy)) =
     [Some (or_default (PNum 20) (per_page qy))]"
proof -
  have "snd (iconscout_app rt key net qy) =
          snd (fetchFromIconScout key net ''/search'' (iconscout_params qy (iconscout_kind rt qy)))"
    by (rule snd_iconscout_app)
  then show ?thesis
    using assms
    by (simp add: fetchFromIconScout_configured page_size_param_def iconscout_params_def)
qed

text \<open>A fetch depends on the provider only through the request it sends.\<close>

lemma fst_fetchFromFreepik_cong:
  assumes "\<forall>r\<in>set (snd (fetchFromFreepik key net1 ep ps)). net2 r = net1 r"
  shows "fetchFromFreepik key net2 ep ps = fetchFromFreepik key net1 ep ps"
  using assms by (auto simp: fetchFromFreepik_def Let_def split: option.splits)

lemma fst_fetchFromIconScout_cong:
  assumes "\<forall>r\<in>set (snd (fetchFromIconScout key net1 ep ps)). net2 r = net1 r"
  shows "fetchFromIconScout key net2 ep ps = fetchFromIconScout key net1 ep ps"
  using assms by (auto simp: fetchFromIconScout_def Let_def split: option.splits)

text \<open>The ids a Freepik route answers with are the ids of the payload's items, in order.\<close>

lemma freepik_ids:
  "map a_id (data (body (fst (freepik_app rt key net qy)))) =
     (case fst (fetchFromFreepik key net (freepik_endpoint rt qy) (freepik_params rt qy)) of
        Inr d \<Rightarrow> map item_id (items_of d)
      | Inl e \<Rightarrow> [])"
  by (simp add: fst_freepik_app ok_reply_def res_json_def error_reply_def transformIconResponse_def
      transformResourceResponse_def transformIcon_def transformResource_def comp_def
      split: sum.splits)

text \<open>A truthy value is present, not null and not the empty text.\<close>

lemma truthy_present: "truthy v \<Longrightarrow> v \<noteq> JUndefined \<and> v \<noteq> JNull \<and> v \<noteq> JStr []"
  by (cases v) simp_all

text \<open>The counter after an increment, and a read of another key after a write.\<close>

lemma get_set_other: "k' \<noteq> k \<Longrightarrow> get_prop (set_prop c k v) k' = get_prop c k'"
  by (simp add: get_prop_def set_prop_def)

lemma counts_post:
  "downloadCounts (fst (post_downloads p w st k)) =
     set_prop (downloadCounts st) k (js_plus_one (js_or (get_prop (downloadCounts st) k) (JNum 0)))"
  by (simp add: post_downloads_def saveDownloadCounts_def Let_def)

text \<open>
  For a key that \<^verbatim>\<open>Object.prototype\<close> does not define and a count that is missing or
  a number below \<open>2 ^ 53\<close> in size, a get after an increment returns the count plus one.
\<close>

lemma increment_then_get_ordinary:
  assumes "object_prototype k = None"
    and "downloadCounts st k = None \<or>
         (\<exists>n. downloadCounts st k = Some (JNum n) \<and> \<bar>n\<bar> < 2 ^ 53)"
  shows "d_downloads (get_downloads (fst (post_downloads p w st k)) k)
           = JNum ((case downloadCounts st k of Some (JNum n) \<Rightarrow> n | _ \<Rightarrow> 0) + 1)"
  using assms
  by (auto simp add: get_downloads_def counts_post get_prop_def set_prop_def js_or_def
      object_prototype_def split: if_splits)


section \<open>Page size\<close>

text \<open>What \<^verbatim>\<open>Math.min(_, 100)\<close> makes of a value that reads as an integer.\<close>

lemma Math_min_integer:
  assumes "toNumber v = Finite (of_int n)"
  shows "Math_min v m = PNum (min n m)"
proof -
  have "min (of_int n) (of_int m) = (of_int (min n m) :: rat)"
    by (simp add: min_def)
  then show ?thesis
    using assms by (simp add: Math_min_def finite_pval_def)
qed

lemma requested_size_reading:
  assumes "requested_size qy = Some n"
  shows "toNumber (or_default (PNum 20) (per_page qy)) = Finite (of_int n)"
  using assms
  by (auto simp: requested_size_def split: jsnumber.splits if_splits)

text \<open>
  The texts that JavaScript reads as an integer have a sign, white space around them, an
  exponent or a base prefix as well as plain digits; a text that is no number is NaN.
\<close>

lemma requested_size_examples:
  "requested_size (size_query ''500'') = Some 500"
  "requested_size (size_query ''-5'') = Some (- 5)"
  "requested_size (size_query ''1e3'') = Some 1000"
  "requested_size (size_query '' 50'') = Some 50"
  "requested_size (size_query ''+7'') = Some 7"
  "requested_size (size_query ''0x10'') = Some 16"
  "requested_size (size_query ''2.5'') = None"
  "requested_size (size_query ''many'') = None"
  by code_simp+

text \<open>
  C1, as amended. On every search route of the Freepik server, a requested page size
  that JavaScript reads as the integer \<open>n\<close> (20 when the query names none) reaches the
  provider as \<open>min n 100\<close>. The IconScout server forwards \<^verbatim>\<open>per_page\<close> as it came,
  with no cap.
\<close>

theorem page_size_forwarded:
  assumes "configured key" and "requested_size qy = Some n"
  shows "map page_size_param (snd (freepik_app rt key net qy)) = [Some (PNum (min n 100))] \<and>
         map page_size_param (snd (iconscout_app rt key net' qy)) =
           [Some (or_default (PNum 20) (per_page qy))]"
  using assms
  by (simp add: freepik_out iconscout_out Math_min_integer [OF requested_size_reading])

theorem page_size_forwarded_witness:
  "map page_size_param
     (snd (freepik_app Icons3d (Some ''key'') (provider_returns sample_payload)
        (size_query ''500'')))
     = [Some (PNum 100)] \<and>
   map page_size_param
     (snd (iconscout_app Icons3d (Some ''key'') (provider_returns sample_iconscout_payload)
        (size_query ''500'')))
     = [Some (PStr ''500'')] \<and>
   map page_size_param
     (snd (freepik_app Search (Some ''key'') (provider_returns sample_payload)
        (size_query ''1e3'')))
     = [Some (PNum 100)] \<and>
   map page_size_param
     (snd (freepik_app Lottie (Some ''key'') (provider_returns sample_payload)
        (size_query ''-5'')))
     = [Some (PNum (- 5))]"
proof -
  have c: "configured (Some ''key'')"
    by (simp add: configured_def)
  show ?thesis
    using page_size_forwarded [OF c requested_size_examples(1), of Icons3d
        "provider_returns sample_payload" "provider_returns sample_iconscout_payload"]
      page_size_forwarded [OF c requested_size_examples(3), of Search
        "provider_returns sample_payload" "provider_returns sample_iconscout_payload"]
      page_size_forwarded [OF c requested_size_examples(2), of Lottie
        "provider_returns sample_payload" "provider_returns sample_iconscout_payload"]
    by (simp add: size_query_def or_default_def)
qed

text \<open>
  The claim as stated fails on the IconScout server: \<^verbatim>\<open>per_page=500\<close> reaches the
  provider as the text 500, not as 100.
\<close>

theorem iconscout_forwards_500:
  "map page_size_param
     (snd (iconscout_app Icons (Some ''key'') (provider_returns sample_iconscout_payload)
        (size_query ''500'')))
     = [Some (PStr ''500'')] \<and>
   map page_size_param
     (snd (iconscout_app Icons (Some ''key'') (provider_returns sample_iconscout_payload)
        (size_query ''500'')))
     \<noteq> [Some (PNum (min 500 100))]"
  by (subst snd_iconscout_app, subst snd_iconscout_app)
     (simp add: fetchFromIconScout_def page_size_param_def iconscout_params_def size_query_def
        or_default_def Let_def)


section \<open>The approximation note\<close>

text \<open>
  C2. A successful search carries a non-empty \<^verbatim>\<open>note\<close> exactly when the route serves a
  kind the provider has no category for, which is \<^verbatim>\<open>/api/lottie\<close> of the Freepik
  server; on every other route of it, \<^verbatim>\<open>/api/search\<close> with any kind included, and on
  every route of the IconScout server, whose \<^verbatim>\<open>/api/lottie\<close> asks for the provider's
  own lottie assets, the field is absent.
\<close>

theorem note_iff_no_native_category:
  "(success (body (fst (freepik_app rt key net qy))) \<longrightarrow>
      truthy (b_note (body (fst (freepik_app rt key net qy)))) = no_native_category Freepik rt \<and>
      (\<not> no_native_category Freepik rt \<longrightarrow>
         b_note (body (fst (freepik_app rt key net qy))) = JUndefined)) \<and>
   (success (body (fst (iconscout_app rt key' net' qy))) \<longrightarrow>
      truthy (b_note (body (fst (iconscout_app rt key' net' qy)))) = no_native_category IconScout rt \<and>
      (\<not> no_native_category IconScout rt \<longrightarrow>
         b_note (body (fst (iconscout_app rt key' net' qy))) = JUndefined))"
  by (simp add: fst_freepik_app fst_iconscout_app no_native_category_def ok_reply_def
      error_reply_def res_json_def iconscout_ok_def lottie_note_def split: sum.splits)

theorem note_iff_no_native_category_witness:
  "success (body (fst (freepik_app Lottie (Some ''key'') (provider_returns sample_payload) lottie_query))) \<and>
   truthy (b_note (body (fst (freepik_app Lottie (Some ''key'') (provider_returns sample_payload) lottie_query)))) \<and>
   success (body (fst (iconscout_app Lottie (Some ''key'') (provider_returns sample_iconscout_payload) lottie_query))) \<and>
   b_note (body (fst (iconscout_app Lottie (Some ''key'') (provider_returns sample_iconscout_payload) lottie_query))) = JUndefined"
proof -
  have f: "success (body (fst (freepik_app Lottie (Some ''key'') (provider_returns sample_payload) lottie_query)))"
    by (subst fst_freepik_app) (simp add: fetchFromFreepik_def provider_returns_def ok_reply_def res_json_def Let_def)
  have i: "success (body (fst (iconscout_app Lottie (Some ''key'') (provider_returns sample_iconscout_payload) lottie_query)))"
    by (subst fst_iconscout_app)
       (simp add: fetchFromIconScout_def provider_returns_def ok_reply_def res_json_def iconscout_ok_def Let_def)
  show ?thesis
    using f i note_iff_no_native_category [of Lottie "Some ''key''" "provider_returns sample_payload"
        lottie_query "Some ''key''" "provider_returns sample_iconscout_payload"]
    by (simp add: no_native_category_def)
qed


section \<open>Thumbnails\<close>

text \<open>
  C3, as amended. The icon transform takes for \<^verbatim>\<open>png_128\<close> and \<^verbatim>\<open>png_64\<close> the URL of
  the first thumbnail of that pixel size when it is truthy, else the URL of the first
  thumbnail, and for \<^verbatim>\<open>thumb\<close> the URL of the first thumbnail; it never reads the
  full-resolution image. The resource transform takes the full-resolution image URL for
  all three when it is truthy; else \<^verbatim>\<open>png_128\<close> and \<^verbatim>\<open>png_64\<close> are the URL of the
  first thumbnail whose key is \<^verbatim>\<open>small\<close> and \<^verbatim>\<open>thumb\<close> is the URL of the first
  thumbnail.
\<close>

theorem thumbnail_urls_by_transform:
  "a_urls (transformIcon it) =
     \<lparr>png_128 = (if truthy (find_url (\<lambda>t. t_size t = JNum 128) it)
                 then find_url (\<lambda>t. t_size t = JNum 128) it else first_url it),
      png_64 = (if truthy (find_url (\<lambda>t. t_size t = JNum 64) it)
                then find_url (\<lambda>t. t_size t = JNum 64) it else first_url it),
      thumb = first_url it\<rparr> \<and>
   a_urls (transformResource it) =
     (if truthy (source_url it) then
        \<lparr>png_128 = source_url it, png_64 = source_url it, thumb = source_url it\<rparr>
      else
        \<lparr>png_128 = find_url (\<lambda>t. t_key t = JStr ''small'') it,
         png_64 = find_url (\<lambda>t. t_key t = JStr ''small'') it,
         thumb = first_url it\<rparr>)"
  by (simp add: transformIcon_def transformResource_def js_or_def)

theorem thumbnail_urls_by_transform_witness:
  "a_urls (transformIcon sample_item) =
     \<lparr>png_128 = JStr ''https://cdn/128.png'', png_64 = JStr ''https://cdn/64.png'',
      thumb = JStr ''https://cdn/64.png''\<rparr> \<and>
   a_urls (transformResource sample_item) =
     \<lparr>png_128 = JStr ''https://cdn/full.jpg'', png_64 = JStr ''https://cdn/full.jpg'',
      thumb = JStr ''https://cdn/full.jpg''\<rparr>"
  using thumbnail_urls_by_transform [of sample_item]
  by (simp add: sample_item_def find_url_def first_url_def source_url_def)

text \<open>
  The claim as stated fails on both transforms: for an item with a 128-pixel thumbnail
  and a full-resolution image the resource transform answers with the image, and for an
  item with an image and no thumbnails the icon transform answers with nothing.
\<close>

theorem resource_prefers_full_image:
  "png_128 (a_urls (transformResource sample_item)) \<noteq> preferred_url 128 sample_item \<and>
   png_128 (a_urls (transformIcon image_only_item)) \<noteq> preferred_url 128 image_only_item"
  by (simp add: transformResource_def transformIcon_def preferred_url_def sample_item_def
      image_only_item_def js_or_def source_url_def find_url_def first_url_def)


section \<open>Provider failures\<close>

text \<open>
  C4, as amended. When the provider call fails, with the error \<open>e\<close> that axios rejects
  with, every search route of both servers answers with the status the provider
  reported, 500 when it reported none, and hands \<^verbatim>\<open>res.json\<close> a body with
  \<^verbatim>\<open>success: false\<close>, an empty \<^verbatim>\<open>data\<close>, the route's own text as \<^verbatim>\<open>error\<close>, and as
  \<^verbatim>\<open>message\<close> the message of the provider's error body when it has one, else the
  message of the error, so that \<^verbatim>\<open>message\<close> is populated when either is. That body is
  sent unless the status is 304, which goes out without one. A status that axios rejects
  with is a final status outside 2xx, from 300 to 999.
\<close>

theorem provider_failure_reply:
  assumes "configured key"
    and "\<forall>r. net r = Inl e" and "\<forall>r. net' r = Inl e"
    and "\<forall>r. e_response e = Some r \<longrightarrow> 300 \<le> r_status r \<and> r_status r \<le> 999"
  shows "http_status (fst (freepik_app rt key net qy)) = reported_status e \<and>
         \<not> success (body (fst (freepik_app rt key net qy))) \<and>
         data (body (fst (freepik_app rt key net qy))) = [] \<and>
         error (body (fst (freepik_app rt key net qy))) = JStr (freepik_error_text rt) \<and>
         truthy (error (body (fst (freepik_app rt key net qy)))) \<and>
         message (body (fst (freepik_app rt key net qy))) =
           js_or (provider_message e) (JStr (e_message e)) \<and>
         truthy (message (body (fst (freepik_app rt key net qy)))) =
           (truthy (provider_message e) \<or> e_message e \<noteq> []) \<and>
         sent (fst (freepik_app rt key net qy)) =
           (if reported_status e = 304 then None
            else Some (body (fst (freepik_app rt key net qy)))) \<and>
         http_status (fst (iconscout_app rt key net' qy)) = reported_status e \<and>
         \<not> success (body (fst (iconscout_app rt key net' qy))) \<and>
         data (body (fst (iconscout_app rt key net' qy))) = [] \<and>
         error (body (fst (iconscout_app rt key net' qy))) = JStr (iconscout_error_text rt) \<and>
         truthy (error (body (fst (iconscout_app rt key net' qy)))) \<and>
         message (body (fst (iconscout_app rt key net' qy))) =
           js_or (provider_message e) (JStr (e_message e)) \<and>
         truthy (message (body (fst (iconscout_app rt key net' qy)))) =
           (truthy (provider_message e) \<or> e_message e \<noteq> []) \<and>
         sent (fst (iconscout_app rt key net' qy)) =
           (if reported_status e = 304 then None
            else Some (body (fst (iconscout_app rt key net' qy))))"
proof -
  have f: "fst (freepik_app rt key net qy) = error_reply (freepik_error_text rt) e"
    using assms(1,2) by (simp add: fst_freepik_app fetchFromFreepik_configured)
  have i: "fst (iconscout_app rt key net' qy) = error_reply (iconscout_error_text rt) e"
    using assms(1,3) by (simp add: fst_iconscout_app fetchFromIconScout_configured)
  have s: "http_status (error_reply what e :: 'x reply) = reported_status e" for what
    using assms(4)
    by (auto simp add: error_reply_def res_json_def reported_status_def split: option.splits)
  have r: "300 \<le> reported_status e"
    using assms(4) by (simp add: reported_status_def split: option.splits)
  have w: "sent (error_reply what e :: 'x reply) =
             (if reported_status e = 304 then None else Some (body (error_reply what e)))"
    for what
    using s [of what] r
    by (auto simp add: error_reply_def res_json_def strips_body_def)
  have b: "\<not> success (body (error_reply what e :: 'x reply))"
          "data (body (error_reply what e :: 'x reply)) = []"
          "error (body (error_reply what e :: 'x reply)) = JStr what"
          "message (body (error_reply what e :: 'x reply)) =
             js_or (provider_message e) (JStr (e_message e))"
    for what
    by (simp_all add: error_reply_def res_json_def provider_message_def)
  have m: "truthy (js_or (provider_message e) (JStr (e_message e))) =
             (truthy (provider_message e) \<or> e_message e \<noteq> [])"
    by (simp add: js_or_def)
  have t: "truthy (JStr (freepik_error_text rt))" "truthy (JStr (iconscout_error_text rt))"
    by (cases rt; simp add: freepik_error_text_def iconscout_error_text_def)+
  show ?thesis
    using t by (simp add: f i s w b m)
qed

theorem provider_failure_reply_witness:
  "http_status (fst (freepik_app Icons (Some ''key'') (provider_fails service_unavailable)
      sample_query)) = 503 \<and>
   sent (fst (freepik_app Icons (Some ''key'') (provider_fails service_unavailable)
      sample_query)) =
     Some \<lparr>success = False, data = [], pagination = JUndefined, b_note = JUndefined,
           error = JStr ''Failed to fetch icons'',
           message = JStr ''Request failed with status code 503''\<rparr> \<and>
   http_status (fst (iconscout_app Icons (Some ''key'')
      (provider_fails service_unavailable :: jsval iconscout_data provider) sample_query)) = 503 \<and>
   http_status (fst (freepik_app Lottie (Some ''key'') (provider_fails network_error)
      sample_query)) = 500 \<and>
   message (body (fst (iconscout_app Lottie (Some ''key'')
      (provider_fails network_error :: jsval iconscout_data provider) sample_query))) =
     JStr ''Network Error''"
proof -
  have c: "configured (Some ''key'')"
    by (simp add: configured_def)
  have n: "\<forall>r. (provider_fails e :: freepik_data provider) r = Inl e" for e
    by (simp add: provider_fails_def)
  have n': "\<forall>r. (provider_fails e :: jsval iconscout_data provider) r = Inl e" for e
    by (simp add: provider_fails_def)
  have r: "\<forall>r. e_response service_unavailable = Some r \<longrightarrow> 300 \<le> r_status r \<and> r_status r \<le> 999"
    by (auto simp add: service_unavailable_def)
  have r': "\<forall>r. e_response network_error = Some r \<longrightarrow> 300 \<le> r_status r \<and> r_status r \<le> 999"
    by (simp add: network_error_def)
  have b: "body (fst (freepik_app Icons (Some ''key'') (provider_fails service_unavailable)
             sample_query)) =
           \<lparr>success = False, data = [], pagination = JUndefined, b_note = JUndefined,
            error = JStr ''Failed to fetch icons'',
            message = JStr ''Request failed with status code 503''\<rparr>"
    by (subst fst_freepik_app)
       (simp add: fetchFromFreepik_def Let_def provider_fails_def error_reply_def res_json_def
          service_unavailable_def freepik_error_text_def js_or_def)
  show ?thesis
    using provider_failure_reply [OF c n n' r, where rt = Icons and qy = sample_query]
      provider_failure_reply [OF c n n' r', where rt = Lottie and qy = sample_query] b
    by (simp add: reported_status_def provider_message_def service_unavailable_def
        network_error_def js_or_def)
qed

text \<open>
  The claim as stated fails when the provider answers 304: the route answers with the
  status 304 and Express sends no body, so the answer has no \<^verbatim>\<open>success\<close>, \<^verbatim>\<open>data\<close>,
  \<^verbatim>\<open>error\<close> or \<^verbatim>\<open>message\<close> at all.
\<close>

theorem not_modified_has_no_body:
  "http_status (fst (freepik_app Icons (Some ''key'') (provider_fails not_modified)
      sample_query)) = 304 \<and>
   sent (fst (freepik_app Icons (Some ''key'') (provider_fails not_modified) sample_query)) = None"
  by (subst fst_freepik_app, subst fst_freepik_app)
     (simp add: fetchFromFreepik_def Let_def provider_fails_def error_reply_def res_json_def
        not_modified_def strips_body_def)


section \<open>Missing credential\<close>

text \<open>
  C5. When the credential variable is unset (or empty), every search route of both
  servers fails with status 500 and a message that names the missing variable, and no
  request goes out.
\<close>

theorem missing_credential_fails_fast:
  assumes "\<not> configured key"
  shows "snd (freepik_app rt key net qy) = [] \<and>
         http_status (fst (freepik_app rt key net qy)) = 500 \<and>
         \<not> success (body (fst (freepik_app rt key net qy))) \<and>
         message (body (fst (freepik_app rt key net qy))) =
           JStr ''FREEPIK_API_KEY environment variable is not set'' \<and>
         snd (iconscout_app rt key net' qy) = [] \<and>
         http_status (fst (iconscout_app rt key net' qy)) = 500 \<and>
         \<not> success (body (fst (iconscout_app rt key net' qy))) \<and>
         message (body (fst (iconscout_app rt key net' qy))) =
           JStr ''ICONSCOUT_CLIENT_ID environment variable is not set''"
  using assms
  by (simp add: fst_freepik_app snd_freepik_app fst_iconscout_app snd_iconscout_app
      fetchFromFreepik_unconfigured fetchFromIconScout_unconfigured error_reply_def res_json_def js_or_def)

theorem missing_credential_fails_fast_witness:
  "\<not> configured None \<and>
   snd (freepik_app Search None (provider_returns sample_payload) sample_query) = [] \<and>
   http_status (fst (freepik_app Search None (provider_returns sample_payload) sample_query)) = 500 \<and>
   snd (iconscout_app Search None (provider_returns sample_iconscout_payload) sample_query) = [] \<and>
   http_status (fst (iconscout_app Search None (provider_returns sample_iconscout_payload) sample_query)) = 500"
proof -
  have c: "\<not> configured None"
    by (simp add: configured_def)
  show ?thesis
    using c missing_credential_fails_fast [OF c, of Search "provider_returns sample_payload"
        sample_query "provider_returns sample_iconscout_payload"]
    by simp
qed


section \<open>Display names\<close>

text \<open>
  C6, as amended. The resource transform names an asset by its title, else its
  filename, else \<^verbatim>\<open>Untitled\<close>; the icon transform by its description, else its name,
  else \<^verbatim>\<open>Untitled Icon\<close>. Either name is never missing, null or empty.
\<close>

theorem display_name_by_transform:
  "a_name (transformResource it) =
     (if truthy (item_title it) then item_title it
      else if truthy (item_filename it) then item_filename it
      else JStr ''Untitled'') \<and>
   a_name (transformIcon it) =
     (if truthy (item_description it) then item_description it
      else if truthy (item_name it) then item_name it
      else JStr ''Untitled Icon'') \<and>
   a_name (transformResource it) \<notin> {JUndefined, JNull, JStr []} \<and>
   a_name (transformIcon it) \<notin> {JUndefined, JNull, JStr []}"
  using truthy_present [of "item_title it"] truthy_present [of "item_filename it"]
    truthy_present [of "item_description it"] truthy_present [of "item_name it"]
  by (simp add: transformIcon_def transformResource_def js_or_def)

theorem display_name_by_transform_witness:
  "a_name (transformResource sample_item) = JStr ''Sunset'' \<and>
   a_name (transformIcon sample_item) = JStr ''Untitled Icon''"
  using display_name_by_transform [of sample_item]
  by (simp add: sample_item_def)

text \<open>
  The claim as stated fails on the icon transform, which reads neither the title nor
  the filename: an icon with both is named \<^verbatim>\<open>Untitled Icon\<close>.
\<close>

theorem icon_name_ignores_title:
  "a_name (transformIcon sample_item) \<noteq> display_name sample_item"
  by (simp add: transformIcon_def display_name_def sample_item_def js_or_def)


section \<open>The download counter\<close>

text \<open>
  C7. An increment of an assetId followed by a get of it should return the previous
  count, or 0 for an unseen id, plus one. For the assetId \<^verbatim>\<open>constructor\<close> in a fresh
  process the read \<^verbatim>\<open>downloadCounts[assetId]\<close> finds the inherited function
  \<^verbatim>\<open>Object\<close>, which is truthy, so \<^verbatim>\<open>+ 1\<close> concatenates: both the increment and the get
  that follows answer with a text, not with 1.
\<close>

theorem constructor_download_count:
  "d_downloads (snd (post_downloads False True fresh_store ''constructor''))
     = JStr ''function Object() { [native code] }1'' \<and>
   d_downloads
     (get_downloads (fst (post_downloads False True fresh_store ''constructor'')) ''constructor'')
     = JStr ''function Object() { [native code] }1''"
  by (simp add: get_downloads_def post_downloads_def saveDownloadCounts_def Let_def
      fresh_store_def get_prop_def set_prop_def js_or_def object_prototype_def
      native_function_def)

text \<open>
  C9. An increment for one assetId leaves the count that a get returns for every other
  assetId as it was.
\<close>

theorem increment_frame:
  "k' \<noteq> k \<Longrightarrow>
     d_downloads (get_downloads (fst (post_downloads p w st k)) k')
       = d_downloads (get_downloads st k')"
  by (simp add: get_downloads_def counts_post get_set_other)

theorem increment_frame_witness:
  "''b'' \<noteq> ''a'' \<and>
     d_downloads (get_downloads (fst (post_downloads False True fresh_store ''a'')) ''b'')
       = d_downloads (get_downloads fresh_store ''b'')"
  using increment_frame [of "''b''" "''a''" False True fresh_store] by simp


section \<open>Repeated searches\<close>

text \<open>
  C8. Two searches by the same route with the same term, page, page size and kind send
  the same request, and when the provider answers that request the same way both times,
  whatever else about it has changed, the two results list the same ids in the same
  order (for IconScout, whose items are handed on untouched, the same items).
\<close>

theorem repeated_search_same_ids:
  assumes "\<forall>r\<in>set (snd (freepik_app rt key net1 qy)). net2 r = net1 r"
    and "\<forall>r\<in>set (snd (iconscout_app rt key' inet1 qy)). inet2 r = inet1 r"
  shows "snd (freepik_app rt key net2 qy) = snd (freepik_app rt key net1 qy) \<and>
         map a_id (data (body (fst (freepik_app rt key net2 qy)))) =
           map a_id (data (body (fst (freepik_app rt key net1 qy)))) \<and>
         snd (iconscout_app rt key' inet2 qy) = snd (iconscout_app rt key' inet1 qy) \<and>
         data (body (fst (iconscout_app rt key' inet2 qy))) =
           data (body (fst (iconscout_app rt key' inet1 qy)))"
proof -
  have f: "fetchFromFreepik key net2 (freepik_endpoint rt qy) (freepik_params rt qy) =
           fetchFromFreepik key net1 (freepik_endpoint rt qy) (freepik_params rt qy)"
    using assms(1) by (intro fst_fetchFromFreepik_cong) (simp add: snd_freepik_app)
  have i: "fetchFromIconScout key' inet2 ''/search'' (iconscout_params qy (iconscout_kind rt qy)) =
           fetchFromIconScout key' inet1 ''/search'' (iconscout_params qy (iconscout_kind rt qy))"
    using assms(2) by (intro fst_fetchFromIconScout_cong) (simp add: snd_iconscout_app)
  show ?thesis
    by (simp add: fst_freepik_app snd_freepik_app fst_iconscout_app snd_iconscout_app f i)
qed

theorem repeated_search_same_ids_witness:
  "map a_id (data (body (fst (freepik_app Icons (Some ''key'')
       (provider_at ''https://api.freepik.com/v1/icons'' sample_payload) sample_query)))) =
   map a_id (data (body (fst (freepik_app Icons (Some ''key'')
       (provider_returns sample_payload) sample_query)))) \<and>
   data (body (fst (iconscout_app Icons (Some ''key'')
       (provider_at ''https://api.iconscout.com/v3/search'' sample_iconscout_payload) sample_query))) =
   data (body (fst (iconscout_app Icons (Some ''key'')
       (provider_returns sample_iconscout_payload) sample_query))) \<and>
   map a_id (data (body (fst (freepik_app Icons (Some ''key'')
       (provider_returns sample_payload) sample_query)))) = [JNum 7]"
proof -
  have f: "\<forall>r\<in>set (snd (freepik_app Icons (Some ''key'') (provider_returns sample_payload) sample_query)).
             provider_at ''https://api.freepik.com/v1/icons'' sample_payload r
               = provider_returns sample_payload r"
    by (subst snd_freepik_app)
       (simp add: fetchFromFreepik_def Let_def provider_at_def provider_returns_def
          FREEPIK_API_BASE_def freepik_endpoint_def uses_icons_def)
  have i: "\<forall>r\<in>set (snd (iconscout_app Icons (Some ''key'')
                 (provider_returns sample_iconscout_payload) sample_query)).
             provider_at ''https://api.iconscout.com/v3/search'' sample_iconscout_payload r
               = provider_returns sample_iconscout_payload r"
    by (subst snd_iconscout_app)
       (simp add: fetchFromIconScout_def Let_def provider_at_def provider_returns_def
          ICONSCOUT_API_BASE_def)
  have v: "map a_id (data (body (fst (freepik_app Icons (Some ''key'')
       (provider_returns sample_payload) sample_query)))) = [JNum 7]"
    by (subst freepik_ids)
       (simp add: fetchFromFreepik_def Let_def provider_returns_def items_of_def
          sample_payload_def sample_item_def)
  show ?thesis
    using repeated_search_same_ids [OF f i] v by simp
qed


section \<open>Other kinds on the generic route\<close>

text \<open>
  C10. For an asset kind outside icon, 3d, illustration, vector and photo, the generic
  \<^verbatim>\<open>/api/search\<close> of the Freepik server asks the resources endpoint with the term as
  given and the license filter alone, and its answer has no \<^verbatim>\<open>note\<close>; the dedicated
  \<^verbatim>\<open>/api/lottie\<close> appends the motion keywords to the term, filters on vectors and
  attaches the note to every successful answer.
\<close>

theorem search_other_kind_unfiltered:
  assumes "key = Some k" and "k \<noteq> []"
    and "asset qy = Some a"
    and "a \<notin> {''icon'', ''3d'', ''illustration'', ''vector'', ''photo''}"
  shows "snd (freepik_search key net qy) =
           [\<lparr>url = FREEPIK_API_BASE @ ''/resources'',
             headers = [(''x-freepik-api-key'', k), (''Accept-Language'', ''en-US'')],
             params =
               [(''term'', PStr (term_of qy)),
                (''page'', or_default (PNum 1) (page qy)),
                (''limit'', Math_min (or_default (PNum 20) (per_page qy)) 100),
                (''order'', PStr ''relevance''),
                (''filters[license][freemium]'', PNum 1)]\<rparr>] \<and>
         b_note (body (fst (freepik_search key net qy))) = JUndefined \<and>
         snd (freepik_lottie key net qy) =
           [\<lparr>url = FREEPIK_API_BASE @ ''/resources'',
             headers = [(''x-freepik-api-key'', k), (''Accept-Language'', ''en-US'')],
             params =
               [(''term'', PStr (term_of qy @ '' animation motion'')),
                (''page'', or_default (PNum 1) (page qy)),
                (''limit'', Math_min (or_default (PNum 20) (per_page qy)) 100),
                (''order'', PStr ''relevance''),
                (''filters[content_type][vector]'', PNum 1),
                (''filters[license][freemium]'', PNum 1)]\<rparr>] \<and>
         b_note (body (fst (freepik_lottie key net qy))) =
           (if success (body (fst (freepik_lottie key net qy))) then JStr lottie_note
            else JUndefined)"
proof -
  have c: "configured key"
    using assms(1,2) by (simp add: configured_def)
  have u: "\<not> uses_icons Search qy" "search_filters a = []"
    using assms(3,4) by (simp_all add: uses_icons_def text_or_default_def search_filters_def)
  have ss: "snd (freepik_search key net qy) =
              snd (fetchFromFreepik key net (freepik_endpoint Search qy) (freepik_params Search qy))"
    using snd_freepik_app [of Search key net qy] by simp
  have fs: "b_note (body (fst (freepik_search key net qy))) = JUndefined"
    using fst_freepik_app [of Search key net qy]
    by (simp add: ok_reply_def res_json_def error_reply_def split: sum.splits)
  have sl: "snd (freepik_lottie key net qy) =
              snd (fetchFromFreepik key net (freepik_endpoint Lottie qy) (freepik_params Lottie qy))"
    using snd_freepik_app [of Lottie key net qy] by simp
  have fl: "b_note (body (fst (freepik_lottie key net qy))) =
              (if success (body (fst (freepik_lottie key net qy))) then JStr lottie_note
               else JUndefined)"
    using fst_freepik_app [of Lottie key net qy]
    by (simp add: ok_reply_def res_json_def error_reply_def split: sum.splits)
  have ps: "freepik_params Search qy =
              [(''term'', PStr (term_of qy)),
               (''page'', or_default (PNum 1) (page qy)),
               (''limit'', Math_min (or_default (PNum 20) (per_page qy)) 100),
               (''order'', PStr ''relevance''),
               (''filters[license][freemium]'', PNum 1)]"
    using u assms(3) by (simp add: freepik_params_def text_or_default_def)
  have pl: "freepik_params Lottie qy =
              [(''term'', PStr (term_of qy @ '' animation motion'')),
               (''page'', or_default (PNum 1) (page qy)),
               (''limit'', Math_min (or_default (PNum 20) (per_page qy)) 100),
               (''order'', PStr ''relevance''),
               (''filters[content_type][vector]'', PNum 1),
               (''filters[license][freemium]'', PNum 1)]"
    by (simp add: freepik_params_def uses_icons_def)
  have e: "freepik_endpoint Search qy = ''/resources''" "freepik_endpoint Lottie qy = ''/resources''"
    using u by (simp_all add: freepik_endpoint_def uses_icons_def)
  have k: "the key = k"
    using assms(1) by simp
  show ?thesis
    by (simp only: ss sl fs fl ps pl e fetchFromFreepik_configured [OF c] k snd_conv simp_thms)
qed

theorem search_other_kind_unfiltered_witness:
  "map (map fst \<circ> params) (snd (freepik_search (Some ''key'') (provider_returns sample_payload) lottie_query)) =
     [[''term'', ''page'', ''limit'', ''order'', ''filters[license][freemium]'']] \<and>
   map (\<lambda>r. map_of (params r) ''term'')
     (snd (freepik_search (Some ''key'') (provider_returns sample_payload) lottie_query)) =
     [Some (PStr ''cat'')] \<and>
   b_note (body (fst (freepik_search (Some ''key'') (provider_returns sample_payload) lottie_query))) =
     JUndefined \<and>
   map (\<lambda>r. map_of (params r) ''term'')
     (snd (freepik_lottie (Some ''key'') (provider_returns sample_payload) lottie_query)) =
     [Some (PStr ''cat animation motion'')]"
proof -
  have a: "asset lottie_query = Some ''lottie''"
    by (simp add: lottie_query_def)
  have n: "''lottie'' \<notin> {''icon'', ''3d'', ''illustration'', ''vector'', ''photo''}"
    by simp
  have k: "''key'' \<noteq> []"
    by simp
  show ?thesis
    using search_other_kind_unfiltered [OF refl k a n, of "provider_returns sample_payload"]
    by (simp add: term_of_def text_or_default_def lottie_query_def)
qed

end
